theory Spec2Isabelle
  imports Main "HOL-Library.AList" "HOL-Library.Sublist" "HOL-Library.Char_ord"
    "HOL-Library.List_Lexorder"
begin

section \<open>The package database of g-sorcery (\<^verbatim>\<open>g_sorcery/package_db.py\<close>)\<close>

text \<open>
  The database keeps a tree category \<open>\<rightarrow>\<close> package name \<open>\<rightarrow>\<close> version \<open>\<rightarrow>\<close> record in
  memory (\<^verbatim>\<open>self.db\<close>) and as JSON files under \<^verbatim>\<open>self.directory\<close>. The theory embeds
  \<^verbatim>\<open>FileJSON\<close>, \<^verbatim>\<open>hash_file\<close>, \<^verbatim>\<open>copy_all\<close> and the methods of \<^verbatim>\<open>PackageDB\<close>.

  Conventions of the embedding.
  \<^item> A Python value that is stored in, or loaded from, a JSON file is a \<open>json\<close> term. A
    Python \<^verbatim>\<open>dict\<close> is an association list in insertion order (CPython 3.7 and later);
    \<^verbatim>\<open>d[k] = v\<close> is \<open>AList.update\<close>, which keeps the position of a key that is present
    and appends a new one.
  \<^item> A raised exception is a value of type \<open>error\<close>; a method that can raise and that
    changes state returns the state it leaves behind together with its result.
\<close>

subsection \<open>JSON values and the Python operations used on them\<close>

datatype json =
    JNull
  | JBool bool
  | JInt int
  | JStr string
  | JArr "json list"
  | JObj "(string \<times> json) list"

datatype error =
    KeyError
  | TypeError
  | AttributeError
  | OSError
  | Exception string

text \<open>\<^verbatim>\<open>bool(x)\<close>, as used by \<^verbatim>\<open>if not x\<close>.\<close>

fun py_bool :: "json \<Rightarrow> bool" where
  "py_bool JNull = False"
| "py_bool (JBool b) = b"
| "py_bool (JInt n) = (n \<noteq> 0)"
| "py_bool (JStr s) = (s \<noteq> [])"
| "py_bool (JArr xs) = (xs \<noteq> [])"
| "py_bool (JObj kvs) = (kvs \<noteq> [])"

text \<open>\<^verbatim>\<open>key in content\<close> for a string \<^verbatim>\<open>key\<close>: membership among the keys of a dict or
  the items of a list, substring test on a string, \<^verbatim>\<open>TypeError\<close> otherwise.\<close>

fun py_in :: "string \<Rightarrow> json \<Rightarrow> error + bool" where
  "py_in key (JObj kvs) = Inr (key \<in> set (map fst kvs))"
| "py_in key (JArr xs) = Inr (JStr key \<in> set xs)"
| "py_in key (JStr s) = Inr (sublist key s)"
| "py_in key _ = Inl TypeError"

text \<open>\<^verbatim>\<open>for x in content\<close>: the keys of a dict, the items of a list, the characters of a
  string.\<close>

fun py_iter :: "json \<Rightarrow> error + json list" where
  "py_iter (JObj kvs) = Inr (map (\<lambda>kv. JStr (fst kv)) kvs)"
| "py_iter (JArr xs) = Inr xs"
| "py_iter (JStr s) = Inr (map (\<lambda>c. JStr [c]) s)"
| "py_iter _ = Inl TypeError"

text \<open>\<^verbatim>\<open>content[key]\<close> and \<^verbatim>\<open>content[key] = value\<close> for a string \<^verbatim>\<open>key\<close>.\<close>

fun py_getitem :: "json \<Rightarrow> string \<Rightarrow> error + json" where
  "py_getitem (JObj kvs) key = (case map_of kvs key of None \<Rightarrow> Inl KeyError | Some v \<Rightarrow> Inr v)"
| "py_getitem _ key = Inl TypeError"

fun py_setitem :: "json \<Rightarrow> string \<Rightarrow> json \<Rightarrow> error + json" where
  "py_setitem (JObj kvs) key v = Inr (JObj (AList.update key v kvs))"
| "py_setitem _ key v = Inl TypeError"

text \<open>A path component or a message part must be a \<^verbatim>\<open>str\<close>: \<^verbatim>\<open>os.path.join\<close> and
  string concatenation raise \<^verbatim>\<open>TypeError\<close> on anything else.\<close>

fun py_str :: "json \<Rightarrow> error + string" where
  "py_str (JStr s) = Inr s"
| "py_str _ = Inl TypeError"

text \<open>\<^verbatim>\<open>json.dump(content, f, indent=2, sort_keys=True)\<close> writes every object with its
  keys in increasing order. A file holds the document that was written, so the content
  of a file is the \<open>json\<close> term \<open>json_dump content\<close>, and \<^verbatim>\<open>json.load\<close> returns the
  content of the file as it is.\<close>

primrec json_dump :: "json \<Rightarrow> json" where
  "json_dump JNull = JNull"
| "json_dump (JBool b) = JBool b"
| "json_dump (JInt n) = JInt n"
| "json_dump (JStr s) = JStr s"
| "json_dump (JArr xs) = JArr (map json_dump xs)"
| "json_dump (JObj kvs) = JObj (sort_key fst (map (map_prod id json_dump) kvs))"

text \<open>Python's \<^verbatim>\<open>==\<close> on dicts ignores the order of the keys; two documents are
  structurally equal when they have the same key-sorted form.\<close>

definition py_eq :: "json \<Rightarrow> json \<Rightarrow> bool" where
  "py_eq a b = (json_dump a = json_dump b)"

subsection \<open>The in-memory tree\<close>

datatype package = Package (pkg_category: string) (pkg_name: string) (pkg_version: string)

type_synonym versions = "(string \<times> json) list"
type_synonym names = "(string \<times> versions) list"
type_synonym tree = "(string \<times> names) list"

text \<open>The fields \<^verbatim>\<open>self.repo_uri\<close>, \<^verbatim>\<open>self.db_uri\<close> and the three entries of
  \<^verbatim>\<open>self.db\<close>. \<^verbatim>\<open>db['info']\<close> and \<^verbatim>\<open>db['categories']\<close> are whatever \<^verbatim>\<open>read\<close> loaded
  from their files, hence \<open>json\<close>; \<^verbatim>\<open>db['packages']\<close> is only ever built by the code
  itself, as nested dicts keyed by strings.\<close>

record pdb =
  repo_uri :: json
  db_uri :: json
  info :: json
  categories :: json
  packages :: tree

definition reset_db :: "pdb \<Rightarrow> pdb" where
  "reset_db self = self\<lparr>info := JObj [], categories := JObj [], packages := []\<rparr>"

text \<open>\<^verbatim>\<open>add_category\<close>: the first assignment raises on a \<^verbatim>\<open>db['categories']\<close> that is no
  dict, before anything is changed.\<close>

definition add_category :: "pdb \<Rightarrow> string \<Rightarrow> json \<Rightarrow> error + pdb" where
  "add_category self category description =
     (case py_setitem (categories self) category description of
        Inl e \<Rightarrow> Inl e
      | Inr cs \<Rightarrow> Inr (self\<lparr>categories := cs,
                             packages := AList.update category [] (packages self)\<rparr>))"

definition add_package :: "pdb \<Rightarrow> package \<Rightarrow> json \<Rightarrow> error + pdb" where
  "add_package self package description =
     (let category = pkg_category package; name = pkg_name package;
          version = pkg_version package
      in case map_of (packages self) category of
           None \<Rightarrow> Inl (Exception (''Non-existent category: '' @ category))
         | Some ns \<Rightarrow>
             let ns1 = (if name \<notin> set (map fst ns) then AList.update name [] ns else ns);
                 vs = (case map_of ns1 name of None \<Rightarrow> [] | Some vs \<Rightarrow> vs)
             in Inr (self\<lparr>packages :=
                  AList.update category
                    (AList.update name (AList.update version description vs) ns1)
                    (packages self)\<rparr>))"

definition list_categories :: "pdb \<Rightarrow> error + json list" where
  "list_categories self = py_iter (categories self)"

definition list_package_names :: "pdb \<Rightarrow> string \<Rightarrow> error + string list" where
  "list_package_names self category =
     (case map_of (packages self) category of
        None \<Rightarrow> Inl (Exception (''No such category: '' @ category))
      | Some ns \<Rightarrow> Inr (map fst ns))"

definition list_package_versions :: "pdb \<Rightarrow> string \<Rightarrow> string \<Rightarrow> error + string list" where
  "list_package_versions self category name =
     (case map_of (packages self) category of
        None \<Rightarrow> Inl (Exception (''No such category: '' @ category))
      | Some ns \<Rightarrow>
          (case map_of ns name of
             None \<Rightarrow> Inl (Exception (''No such package: '' @ name))
           | Some vs \<Rightarrow> Inr (map fst vs)))"

definition list_all_packages :: "pdb \<Rightarrow> package list" where
  "list_all_packages self =
     concat (map (\<lambda>(category, ns).
       concat (map (\<lambda>(name, vs). map (\<lambda>(version, d). Package category name version) vs) ns))
       (packages self))"

text \<open>\<^verbatim>\<open>get_package_description\<close>: three subscriptions, each raising \<^verbatim>\<open>KeyError\<close>.\<close>

definition get_package_description :: "pdb \<Rightarrow> package \<Rightarrow> error + json" where
  "get_package_description self package =
     (case map_of (packages self) (pkg_category package) of
        None \<Rightarrow> Inl KeyError
      | Some ns \<Rightarrow>
          (case map_of ns (pkg_name package) of
             None \<Rightarrow> Inl KeyError
           | Some vs \<Rightarrow>
               (case map_of vs (pkg_version package) of
                  None \<Rightarrow> Inl KeyError
                | Some d \<Rightarrow> Inr d)))"

text \<open>The record stored at a triple, if any: the observation the frame properties are
  stated with.\<close>

definition record_at :: "pdb \<Rightarrow> package \<Rightarrow> json option" where
  "record_at self package =
     (case get_package_description self package of Inl e \<Rightarrow> None | Inr d \<Rightarrow> Some d)"

subsection \<open>The file system\<close>

text \<open>
  A directory tree is a finite map from paths to nodes, kept as an association list and
  read with \<open>map_of\<close>. Paths are the strings the code builds with \<^verbatim>\<open>os.path.join\<close>,
  taken relative to the root of the tree: the empty path is the root itself (for a
  database, \<^verbatim>\<open>self.directory\<close>), whose parent directory is assumed to exist. Paths are
  compared as strings, which is what the operating system does as long as no component
  of a path is empty, \<^verbatim>\<open>.\<close> or \<^verbatim>\<open>..\<close>; the properties that depend on it assume such names.
  A file is identified with the JSON document it holds. Every failure of the operating
  system (\<^verbatim>\<open>FileNotFoundError\<close>, \<^verbatim>\<open>FileExistsError\<close>, \<^verbatim>\<open>IsADirectoryError\<close>,
  \<^verbatim>\<open>NotADirectoryError\<close>) is the one error \<open>OSError\<close>, their common base class.
\<close>

datatype node = Dir | File json

type_synonym fs = "(string \<times> node) list"

definition self_directory :: string where
  "self_directory = []"

text \<open>\<^verbatim>\<open>posixpath.join\<close>, \<^verbatim>\<open>posixpath.dirname\<close> and \<^verbatim>\<open>posixpath.basename\<close>.\<close>

definition join :: "string \<Rightarrow> string \<Rightarrow> string" where
  "join a b =
     (if b \<noteq> [] \<and> hd b = CHR ''/'' then b
      else if a = [] \<or> last a = CHR ''/'' then a @ b
      else a @ ''/'' @ b)"

definition dirname :: "string \<Rightarrow> string" where
  "dirname p =
     (let head = rev (dropWhile (\<lambda>c. c \<noteq> CHR ''/'') (rev p))
      in if set head \<subseteq> {CHR ''/''} then head
         else rev (dropWhile (\<lambda>c. c = CHR ''/'') (rev head)))"

definition basename :: "string \<Rightarrow> string" where
  "basename p = rev (takeWhile (\<lambda>c. c \<noteq> CHR ''/'') (rev p))"

definition path_exists :: "fs \<Rightarrow> string \<Rightarrow> bool" where
  "path_exists fs p = (map_of fs p \<noteq> None)"

definition isdir :: "fs \<Rightarrow> string \<Rightarrow> bool" where
  "isdir fs p = (map_of fs p = Some Dir)"

definition isfile :: "fs \<Rightarrow> string \<Rightarrow> bool" where
  "isfile fs p = (case map_of fs p of Some (File c) \<Rightarrow> True | _ \<Rightarrow> False)"

text \<open>\<open>under d p\<close>: the path \<open>p\<close> lies below the directory \<open>d\<close>.\<close>

definition under :: "string \<Rightarrow> string \<Rightarrow> bool" where
  "under d p = (if d = [] then p \<noteq> [] else prefix (d @ ''/'') p)"

text \<open>\<^verbatim>\<open>os.mkdir\<close>: the path must be new and its parent a directory.\<close>

definition mkdir :: "string \<Rightarrow> fs \<Rightarrow> (error + unit) \<times> fs" where
  "mkdir p fs =
     (if path_exists fs p then (Inl OSError, fs)
      else if p \<noteq> [] \<and> \<not> isdir fs (dirname p) then (Inl OSError, fs)
      else (Inr (), AList.update p Dir fs))"

text \<open>\<^verbatim>\<open>os.makedirs\<close>: create the missing parents first, then the directory itself.\<close>

function makedirs :: "string \<Rightarrow> fs \<Rightarrow> (error + unit) \<times> fs" where
  "makedirs p fs =
     (if length (dirname p) < length p \<and> \<not> path_exists fs (dirname p) then
        (case makedirs (dirname p) fs of
           (Inl e, fs') \<Rightarrow> (Inl e, fs')
         | (Inr u, fs') \<Rightarrow> mkdir p fs')
      else mkdir p fs)"
  by pat_completeness auto
termination
  by (relation "measure (\<lambda>(p, fs). length p)") auto

text \<open>\<^verbatim>\<open>open(path, 'w')\<close> followed by writing a document, and \<^verbatim>\<open>open(path, 'r')\<close>
  followed by reading it.\<close>

definition write_file :: "string \<Rightarrow> json \<Rightarrow> fs \<Rightarrow> (error + unit) \<times> fs" where
  "write_file p c fs =
     (if isdir fs p then (Inl OSError, fs)
      else if \<not> isdir fs (dirname p) then (Inl OSError, fs)
      else (Inr (), AList.update p (File c) fs))"

definition read_file :: "string \<Rightarrow> fs \<Rightarrow> error + json" where
  "read_file p fs = (case map_of fs p of Some (File c) \<Rightarrow> Inr c | _ \<Rightarrow> Inl OSError)"

text \<open>\<^verbatim>\<open>hash_file(name, hashlib.md5())\<close>: the hex digest of the bytes of the file. The
  digest function is a parameter \<open>H\<close> of everything that hashes.\<close>

definition hash_file :: "(json \<Rightarrow> string) \<Rightarrow> string \<Rightarrow> fs \<Rightarrow> error + string" where
  "hash_file H p fs = (case read_file p fs of Inl e \<Rightarrow> Inl e | Inr c \<Rightarrow> Inr (H c))"

text \<open>\<^verbatim>\<open>shutil.rmtree\<close> removes a directory with everything below it.\<close>

definition rmtree :: "string \<Rightarrow> fs \<Rightarrow> (error + unit) \<times> fs" where
  "rmtree d fs =
     (if \<not> isdir fs d then (Inl OSError, fs)
      else (Inr (), filter (\<lambda>pn. fst pn \<noteq> d \<and> \<not> under d (fst pn)) fs))"

text \<open>\<^verbatim>\<open>os.listdir\<close>, as the paths of the children of a directory.\<close>

definition listdir :: "string \<Rightarrow> fs \<Rightarrow> string list" where
  "listdir d fs = filter (\<lambda>p. p \<noteq> d \<and> dirname p = d) (remdups (map fst fs))"

text \<open>\<^verbatim>\<open>shutil.copy2\<close> and \<^verbatim>\<open>shutil.copytree\<close> from a tree \<open>src_fs\<close> into a tree \<open>fs\<close>.\<close>

definition copy2 :: "fs \<Rightarrow> string \<Rightarrow> string \<Rightarrow> fs \<Rightarrow> (error + unit) \<times> fs" where
  "copy2 src_fs src dst fs =
     (case read_file src src_fs of
        Inl e \<Rightarrow> (Inl e, fs)
      | Inr c \<Rightarrow> write_file (if isdir fs dst then join dst (basename src) else dst) c fs)"

definition copytree :: "fs \<Rightarrow> string \<Rightarrow> string \<Rightarrow> fs \<Rightarrow> (error + unit) \<times> fs" where
  "copytree src_fs src dst fs =
     (case makedirs dst fs of
        (Inl e, fs') \<Rightarrow> (Inl e, fs')
      | (Inr u, fs') \<Rightarrow>
          (Inr (), foldl (\<lambda>acc pn. AList.update (dst @ drop (length src) (fst pn)) (snd pn) acc)
                     fs' (filter (\<lambda>pn. under src (fst pn)) (AList.clearjunk src_fs))))"

fun copy_names :: "fs \<Rightarrow> string \<Rightarrow> string \<Rightarrow> string list \<Rightarrow> fs \<Rightarrow> (error + unit) \<times> fs" where
  "copy_names src_fs src dst [] fs = (Inr (), fs)"
| "copy_names src_fs src dst (f_name # rest) fs =
     (let src_name = join src f_name; dst_name = join dst f_name
      in case (if isdir src_fs src_name then copytree src_fs src_name dst_name fs
               else copy2 src_fs src_name dst_name fs) of
           (Inl e, fs') \<Rightarrow> (Inl e, fs')
         | (Inr u, fs') \<Rightarrow> copy_names src_fs src dst rest fs')"

definition copy_all :: "fs \<Rightarrow> string \<Rightarrow> string \<Rightarrow> fs \<Rightarrow> (error + unit) \<times> fs" where
  "copy_all src_fs src dst fs = copy_names src_fs src dst (map basename (listdir src src_fs)) fs"

subsection \<open>\<^verbatim>\<open>FileJSON\<close>\<close>

text \<open>The loop \<^verbatim>\<open>for key in self.mandatories: if not key in content: raise KeyError\<close>.\<close>

fun check_mandatories :: "string list \<Rightarrow> json \<Rightarrow> error + unit" where
  "check_mandatories [] content = Inr ()"
| "check_mandatories (key # keys) content =
     (case py_in key content of
        Inl e \<Rightarrow> Inl e
      | Inr b \<Rightarrow> if \<not> b then Inl KeyError else check_mandatories keys content)"

text \<open>The loop \<^verbatim>\<open>for key in self.mandatories: content[key] = ""\<close> on an empty dict.\<close>

definition default_content :: "string list \<Rightarrow> json" where
  "default_content mandatories = JObj (foldl (\<lambda>c key. AList.update key (JStr []) c) [] mandatories)"

text \<open>\<^verbatim>\<open>FileJSON(directory, name, mandatories).read()\<close>.\<close>

definition filejson_read :: "string \<Rightarrow> string \<Rightarrow> string list \<Rightarrow> fs \<Rightarrow> (error + json) \<times> fs" where
  "filejson_read directory name mandatories fs =
     (let path = join directory name
      in case (if \<not> path_exists fs directory then makedirs directory fs else (Inr (), fs)) of
           (Inl e, fs1) \<Rightarrow> (Inl e, fs1)
         | (Inr u, fs1) \<Rightarrow>
             if \<not> isfile fs1 path then
               (let content = default_content mandatories
                in case write_file path (json_dump content) fs1 of
                     (Inl e, fs2) \<Rightarrow> (Inl e, fs2)
                   | (Inr u, fs2) \<Rightarrow> (Inr content, fs2))
             else
               (case read_file path fs1 of
                  Inl e \<Rightarrow> (Inl e, fs1)
                | Inr content \<Rightarrow>
                    (case check_mandatories mandatories content of
                       Inl e \<Rightarrow> (Inl e, fs1)
                     | Inr u \<Rightarrow> (Inr content, fs1))))"

text \<open>\<^verbatim>\<open>FileJSON(directory, name, mandatories).write(content)\<close>.\<close>

definition filejson_write ::
  "string \<Rightarrow> string \<Rightarrow> string list \<Rightarrow> json \<Rightarrow> fs \<Rightarrow> (error + unit) \<times> fs" where
  "filejson_write directory name mandatories content fs =
     (case check_mandatories mandatories content of
        Inl e \<Rightarrow> (Inl e, fs)
      | Inr u \<Rightarrow>
          (case (if \<not> path_exists fs directory then makedirs directory fs else (Inr (), fs)) of
             (Inl e, fs1) \<Rightarrow> (Inl e, fs1)
           | (Inr u, fs1) \<Rightarrow> write_file (join directory name) (json_dump content) fs1))"

subsection \<open>\<^verbatim>\<open>PackageDB\<close>: the tree on disk\<close>

definition URI_NAME :: string where "URI_NAME = ''uri.json''"
definition INFO_NAME :: string where "INFO_NAME = ''info.json''"
definition CATEGORIES_NAME :: string where "CATEGORIES_NAME = ''categories.json''"
definition PACKAGES_NAME :: string where "PACKAGES_NAME = ''packages.json''"
definition VERSIONS_NAME :: string where "VERSIONS_NAME = ''versions.json''"

text \<open>\<^verbatim>\<open>reset_uri\<close>. The fields of \<^verbatim>\<open>self\<close> that were assigned before an exception keep
  their new values.\<close>

definition reset_uri :: "pdb \<Rightarrow> json \<Rightarrow> json \<Rightarrow> fs \<Rightarrow> (error + unit) \<times> pdb \<times> fs" where
  "reset_uri self repo duri fs =
     (case filejson_read self_directory URI_NAME [''repo_uri'', ''db_uri''] fs of
        (Inl e, fs1) \<Rightarrow> (Inl e, self, fs1)
      | (Inr uri, fs1) \<Rightarrow>
          (case (if \<not> py_bool repo then py_getitem uri ''repo_uri'' else Inr repo) of
             Inl e \<Rightarrow> (Inl e, self, fs1)
           | Inr r \<Rightarrow>
               (case (if \<not> py_bool duri then py_getitem uri ''db_uri'' else Inr duri) of
                  Inl e \<Rightarrow> (Inl e, self\<lparr>repo_uri := r\<rparr>, fs1)
                | Inr d \<Rightarrow>
                    (let self2 = self\<lparr>repo_uri := r, db_uri := d\<rparr>
                     in case py_setitem uri ''repo_uri'' r of
                          Inl e \<Rightarrow> (Inl e, self2, fs1)
                        | Inr uri1 \<Rightarrow>
                            (case py_setitem uri1 ''db_uri'' d of
                               Inl e \<Rightarrow> (Inl e, self2, fs1)
                             | Inr uri2 \<Rightarrow>
                                 (case filejson_write self_directory URI_NAME
                                         [''repo_uri'', ''db_uri''] uri2 fs1 of
                                    (res, fs2) \<Rightarrow> (res, self2, fs2)))))))"

text \<open>\<^verbatim>\<open>PackageDB(directory, repo_uri, db_uri)\<close>: the constructor, on the tree \<open>fs\<close> of
  \<^verbatim>\<open>directory\<close>. No object exists when it raises.\<close>

definition init :: "json \<Rightarrow> json \<Rightarrow> fs \<Rightarrow> (error + pdb) \<times> fs" where
  "init repo duri fs =
     (case reset_uri \<lparr>repo_uri = JNull, db_uri = JNull, info = JNull, categories = JNull,
                       packages = []\<rparr> repo duri fs of
        (Inl e, self, fs1) \<Rightarrow> (Inl e, fs1)
      | (Inr u, self, fs1) \<Rightarrow> (Inr (reset_db self), fs1))"

definition clean :: "pdb \<Rightarrow> fs \<Rightarrow> (error + unit) \<times> pdb \<times> fs" where
  "clean self fs =
     (case rmtree self_directory fs of
        (Inl e, fs1) \<Rightarrow> (Inl e, self, fs1)
      | (Inr u, fs1) \<Rightarrow>
          (case reset_uri self (repo_uri self) (db_uri self) fs1 of
             (Inl e, self1, fs2) \<Rightarrow> (Inl e, self1, fs2)
           | (Inr u, self1, fs2) \<Rightarrow> (Inr (), reset_db self1, fs2)))"

text \<open>\<^verbatim>\<open>write\<close> (here \<open>write_db\<close>), innermost loop first. The hooks \<^verbatim>\<open>additional_write_*\<close> do nothing.\<close>

fun write_versions :: "string \<Rightarrow> versions \<Rightarrow> fs \<Rightarrow> (error + unit) \<times> fs" where
  "write_versions package_path [] fs = (Inr (), fs)"
| "write_versions package_path (vc # rest) fs =
     (case filejson_write package_path (fst vc @ ''.json'') [] (snd vc) fs of
        (Inl e, fs1) \<Rightarrow> (Inl e, fs1)
      | (Inr u, fs1) \<Rightarrow> write_versions package_path rest fs1)"

fun write_packages :: "string \<Rightarrow> names \<Rightarrow> fs \<Rightarrow> (error + unit) \<times> fs" where
  "write_packages category [] fs = (Inr (), fs)"
| "write_packages category (pv # rest) fs =
     (let package_path = join (join self_directory category) (fst pv)
      in case write_versions package_path (snd pv) fs of
           (Inl e, fs1) \<Rightarrow> (Inl e, fs1)
         | (Inr u, fs1) \<Rightarrow>
             (case filejson_write package_path VERSIONS_NAME []
                     (JArr (map (\<lambda>vc. JStr (fst vc)) (snd pv))) fs1 of
                (Inl e, fs2) \<Rightarrow> (Inl e, fs2)
              | (Inr u, fs2) \<Rightarrow> write_packages category rest fs2))"

text \<open>A category that is no string cannot be a key of \<^verbatim>\<open>db['packages']\<close> and cannot be
  appended to the message either: \<^verbatim>\<open>TypeError\<close>.\<close>

fun write_categories :: "tree \<Rightarrow> json list \<Rightarrow> fs \<Rightarrow> (error + unit) \<times> fs" where
  "write_categories pk [] fs = (Inr (), fs)"
| "write_categories pk (c # rest) fs =
     (case py_str c of
        Inl e \<Rightarrow> (Inl e, fs)
      | Inr category \<Rightarrow>
          (case map_of pk category of
             None \<Rightarrow> (Inl (Exception (''Empty category: '' @ category)), fs)
           | Some ns \<Rightarrow>
               (case write_packages category ns fs of
                  (Inl e, fs1) \<Rightarrow> (Inl e, fs1)
                | (Inr u, fs1) \<Rightarrow>
                    (case filejson_write (join self_directory category) PACKAGES_NAME []
                            (JArr (map (\<lambda>pv. JStr (fst pv)) ns)) fs1 of
                       (Inl e, fs2) \<Rightarrow> (Inl e, fs2)
                     | (Inr u, fs2) \<Rightarrow> write_categories pk rest fs2))))"

definition write_db :: "pdb \<Rightarrow> fs \<Rightarrow> (error + unit) \<times> fs" where
  "write_db self fs =
     (case filejson_write self_directory INFO_NAME [] (info self) fs of
        (Inl e, fs1) \<Rightarrow> (Inl e, fs1)
      | (Inr u, fs1) \<Rightarrow>
          (case filejson_write self_directory CATEGORIES_NAME [] (categories self) fs1 of
             (Inl e, fs2) \<Rightarrow> (Inl e, fs2)
           | (Inr u, fs2) \<Rightarrow>
               (case py_iter (categories self) of
                  Inl e \<Rightarrow> (Inl e, fs2)
                | Inr cs \<Rightarrow> write_categories (packages self) cs fs2)))"

text \<open>\<^verbatim>\<open>manifest\<close>. \<open>hash_entries\<close> is a loop \<^verbatim>\<open>manifest[key] = hash_file(path, ...)\<close> over
  pairs of a manifest key and a path. \<^verbatim>\<open>os.walk(category_path)\<close> yields every file below
  the category directory; its key \<^verbatim>\<open>os.path.join(root[len(self.directory)+1:], f)\<close> is the
  path of the file relative to \<^verbatim>\<open>self.directory\<close>.\<close>

fun hash_entries ::
  "(json \<Rightarrow> string) \<Rightarrow> (string \<times> string) list \<Rightarrow> (string \<times> json) list \<Rightarrow> fs
   \<Rightarrow> error + (string \<times> json) list" where
  "hash_entries H [] m fs = Inr m"
| "hash_entries H (kp # rest) m fs =
     (case hash_file H (snd kp) fs of
        Inl e \<Rightarrow> Inl e
      | Inr h \<Rightarrow> hash_entries H rest (AList.update (fst kp) (JStr h) m) fs)"

definition walk_files :: "string \<Rightarrow> fs \<Rightarrow> string list" where
  "walk_files d fs = filter (\<lambda>p. under d p \<and> isfile fs p) (remdups (map fst fs))"

fun manifest_categories ::
  "(json \<Rightarrow> string) \<Rightarrow> json list \<Rightarrow> (string \<times> json) list \<Rightarrow> fs
   \<Rightarrow> error + (string \<times> json) list" where
  "manifest_categories H [] m fs = Inr m"
| "manifest_categories H (c # rest) m fs =
     (case py_str c of
        Inl e \<Rightarrow> Inl e
      | Inr category \<Rightarrow>
          (let category_path = join self_directory category
           in if \<not> isdir fs category_path then Inl (Exception (''Empty category: '' @ category))
              else (case hash_entries H (map (\<lambda>p. (p, p)) (walk_files category_path fs)) m fs of
                      Inl e \<Rightarrow> Inl e
                    | Inr m1 \<Rightarrow> manifest_categories H rest m1 fs)))"

definition manifest :: "(json \<Rightarrow> string) \<Rightarrow> fs \<Rightarrow> (error + unit) \<times> fs" where
  "manifest H fs =
     (case filejson_read self_directory CATEGORIES_NAME [] fs of
        (Inl e, fs1) \<Rightarrow> (Inl e, fs1)
      | (Inr cats, fs1) \<Rightarrow>
          (case hash_entries H
                  (map (\<lambda>name. (name, join self_directory name))
                     [INFO_NAME, CATEGORIES_NAME, URI_NAME]) [] fs1 of
             Inl e \<Rightarrow> (Inl e, fs1)
           | Inr m0 \<Rightarrow>
               (case py_iter cats of
                  Inl e \<Rightarrow> (Inl e, fs1)
                | Inr cs \<Rightarrow>
                    (case manifest_categories H cs m0 fs1 of
                       Inl e \<Rightarrow> (Inl e, fs1)
                     | Inr m \<Rightarrow> filejson_write self_directory ''manifest.json'' [] (JObj m) fs1))))"

text \<open>\<^verbatim>\<open>check_manifest\<close>. \<^verbatim>\<open>manifest.items()\<close> exists on a dict only.\<close>

fun check_names :: "string list \<Rightarrow> json \<Rightarrow> error + unit" where
  "check_names [] m = Inr ()"
| "check_names (name # rest) m =
     (case py_in name m of
        Inl e \<Rightarrow> Inl e
      | Inr b \<Rightarrow> if \<not> b then Inl (Exception (''Bad manifest: no '' @ name @ '' entry''))
                 else check_names rest m)"

fun check_items :: "(json \<Rightarrow> string) \<Rightarrow> (string \<times> json) list \<Rightarrow> fs \<Rightarrow> error + string list" where
  "check_items H [] fs = Inr []"
| "check_items H (nv # rest) fs =
     (case hash_file H (join self_directory (fst nv)) fs of
        Inl e \<Rightarrow> Inl e
      | Inr h \<Rightarrow>
          (case check_items H rest fs of
             Inl e \<Rightarrow> Inl e
           | Inr errors \<Rightarrow> Inr (if JStr h \<noteq> snd nv then fst nv # errors else errors)))"

definition check_manifest ::
  "(json \<Rightarrow> string) \<Rightarrow> fs \<Rightarrow> (error + bool \<times> string list) \<times> fs" where
  "check_manifest H fs =
     (case filejson_read self_directory ''manifest.json'' [] fs of
        (Inl e, fs1) \<Rightarrow> (Inl e, fs1)
      | (Inr m, fs1) \<Rightarrow>
          (case check_names [INFO_NAME, CATEGORIES_NAME, URI_NAME] m of
             Inl e \<Rightarrow> (Inl e, fs1)
           | Inr u \<Rightarrow>
               (case m of
                  JObj kvs \<Rightarrow>
                    (case check_items H kvs fs1 of
                       Inl e \<Rightarrow> (Inl e, fs1)
                     | Inr errors \<Rightarrow> (Inr (errors = [], errors), fs1))
                | _ \<Rightarrow> (Inl AttributeError, fs1))))"

text \<open>\<^verbatim>\<open>read\<close>, innermost loop first. Each loop returns the dict it has filled so far
  also when it raises, as the in-memory tree keeps it. The hooks \<^verbatim>\<open>additional_read_*\<close>
  do nothing. \<open>str_list\<close> is \<^verbatim>\<open>str(errors)\<close> for a list of plain strings.\<close>

definition str_list :: "string list \<Rightarrow> string" where
  "str_list xs =
     ''['' @ concat (map (\<lambda>i. (if i = 0 then [] else '', '') @ [CHR 0x27] @ xs ! i @ [CHR 0x27])
                      [0..<length xs]) @ '']''"

fun read_versions ::
  "string \<Rightarrow> json list \<Rightarrow> versions \<Rightarrow> fs \<Rightarrow> (error + unit) \<times> versions \<times> fs" where
  "read_versions package_path [] vs fs = (Inr (), vs, fs)"
| "read_versions package_path (v # rest) vs fs =
     (case py_str v of
        Inl e \<Rightarrow> (Inl e, vs, fs)
      | Inr version \<Rightarrow>
          (case filejson_read package_path (version @ ''.json'') [] fs of
             (Inl e, fs1) \<Rightarrow> (Inl e, vs, fs1)
           | (Inr description, fs1) \<Rightarrow>
               read_versions package_path rest (AList.update version description vs) fs1))"

fun read_names ::
  "string \<Rightarrow> string \<Rightarrow> json list \<Rightarrow> names \<Rightarrow> fs \<Rightarrow> (error + unit) \<times> names \<times> fs" where
  "read_names category category_path [] ns fs = (Inr (), ns, fs)"
| "read_names category category_path (n # rest) ns fs =
     (case py_str n of
        Inl e \<Rightarrow> (Inl e, ns, fs)
      | Inr name \<Rightarrow>
          (let package_path = join category_path name
           in if \<not> isdir fs category_path then
                (Inl (Exception (''Empty package: '' @ category @ ''/'' @ name)), ns, fs)
              else
                (case filejson_read package_path VERSIONS_NAME [] fs of
                   (Inl e, fs1) \<Rightarrow> (Inl e, ns, fs1)
                 | (Inr vers, fs1) \<Rightarrow>
                     if \<not> py_bool vers then
                       (Inl (Exception (''Empty package: '' @ category @ ''/'' @ name)), ns, fs1)
                     else
                       (case py_iter vers of
                          Inl e \<Rightarrow> (Inl e, AList.update name [] ns, fs1)
                        | Inr vlist \<Rightarrow>
                            (case read_versions package_path vlist [] fs1 of
                               (Inl e, vs, fs2) \<Rightarrow> (Inl e, AList.update name vs ns, fs2)
                             | (Inr u, vs, fs2) \<Rightarrow>
                                 read_names category category_path rest
                                   (AList.update name vs ns) fs2)))))"

fun read_categories ::
  "json list \<Rightarrow> tree \<Rightarrow> fs \<Rightarrow> (error + unit) \<times> tree \<times> fs" where
  "read_categories [] pk fs = (Inr (), pk, fs)"
| "read_categories (c # rest) pk fs =
     (case py_str c of
        Inl e \<Rightarrow> (Inl e, pk, fs)
      | Inr category \<Rightarrow>
          (let category_path = join self_directory category
           in if \<not> isdir fs category_path then
                (Inl (Exception (''Empty category: '' @ category)), pk, fs)
              else
                (case filejson_read category_path PACKAGES_NAME [] fs of
                   (Inl e, fs1) \<Rightarrow> (Inl e, pk, fs1)
                 | (Inr pkgs, fs1) \<Rightarrow>
                     if \<not> py_bool pkgs then
                       (Inl (Exception (''Empty category: '' @ category)), pk, fs1)
                     else
                       (case py_iter pkgs of
                          Inl e \<Rightarrow> (Inl e, AList.update category [] pk, fs1)
                        | Inr nlist \<Rightarrow>
                            (case read_names category category_path nlist [] fs1 of
                               (Inl e, ns, fs2) \<Rightarrow> (Inl e, AList.update category ns pk, fs2)
                             | (Inr u, ns, fs2) \<Rightarrow>
                                 read_categories rest (AList.update category ns pk) fs2)))))"

definition read :: "(json \<Rightarrow> string) \<Rightarrow> pdb \<Rightarrow> fs \<Rightarrow> (error + unit) \<times> pdb \<times> fs" where
  "read H self fs =
     (case check_manifest H fs of
        (Inl e, fs1) \<Rightarrow> (Inl e, self, fs1)
      | (Inr (sane, errors), fs1) \<Rightarrow>
          if \<not> sane then (Inl (Exception (''Manifest error: '' @ str_list errors)), self, fs1)
          else
            (case filejson_read self_directory INFO_NAME [] fs1 of
               (Inl e, fs2) \<Rightarrow> (Inl e, self, fs2)
             | (Inr i, fs2) \<Rightarrow>
                 (case filejson_read self_directory CATEGORIES_NAME [] fs2 of
                    (Inl e, fs3) \<Rightarrow> (Inl e, self\<lparr>info := i\<rparr>, fs3)
                  | (Inr cats, fs3) \<Rightarrow>
                      (let self2 = self\<lparr>info := i, categories := cats\<rparr>
                       in case py_iter cats of
                            Inl e \<Rightarrow> (Inl e, self2, fs3)
                          | Inr cs \<Rightarrow>
                              (case read_categories cs (packages self2) fs3 of
                                 (res, pk, fs4) \<Rightarrow> (res, self2\<lparr>packages := pk\<rparr>, fs4))))))"

text \<open>\<^verbatim>\<open>generate\<close>, with the hook \<^verbatim>\<open>generate_tree\<close> of a subclass as a parameter (the one
  of \<^verbatim>\<open>PackageDB\<close> itself does nothing).\<close>

definition generate ::
  "(json \<Rightarrow> string) \<Rightarrow> (pdb \<Rightarrow> error + pdb) \<Rightarrow> pdb \<Rightarrow> json \<Rightarrow> fs
   \<Rightarrow> (error + unit) \<times> pdb \<times> fs" where
  "generate H generate_tree self repo fs =
     (case clean (if py_bool repo then self\<lparr>repo_uri := repo\<rparr> else self) fs of
        (Inl e, self1, fs1) \<Rightarrow> (Inl e, self1, fs1)
      | (Inr u, self1, fs1) \<Rightarrow>
          (case generate_tree self1 of
             Inl e \<Rightarrow> (Inl e, self1, fs1)
           | Inr self2 \<Rightarrow>
               (case write_db self2 fs1 of
                  (Inl e, fs2) \<Rightarrow> (Inl e, self2, fs2)
                | (Inr u, fs2) \<Rightarrow>
                    (case manifest H fs2 of (res, fs3) \<Rightarrow> (res, self2, fs3)))))"

subsection \<open>\<^verbatim>\<open>PackageDB.sync\<close>\<close>

text \<open>
  \<^verbatim>\<open>get_real_db_uri\<close> is declared without a \<^verbatim>\<open>self\<close> parameter, so the call
  \<^verbatim>\<open>self.get_real_db_uri()\<close> of the class as it stands raises \<^verbatim>\<open>TypeError\<close>. \<^verbatim>\<open>sync\<close>
  takes the method as a parameter, so that it also describes a subclass that overrides
  it. What lies outside the program is a parameter as well: \<open>download uri\<close> is the content
  of the download directory after \<^verbatim>\<open>wget\<close> (\<open>None\<close> when it exits with a non-zero
  status), and \<open>unpack\<close> is the content of \<^verbatim>\<open>temp_dir\<close> after every \<^verbatim>\<open>*.tar.gz\<close> of the
  download directory was unpacked into it, or the exception of \<^verbatim>\<open>tarfile\<close>. Each
  \<^verbatim>\<open>TemporaryDirectory\<close> is a tree of its own.
\<close>

definition get_real_db_uri :: "pdb \<Rightarrow> error + json" where
  "get_real_db_uri self = Inl TypeError"

definition empty_dir :: fs where
  "empty_dir = [([], Dir)]"

text \<open>The staging tree: \<^verbatim>\<open>tempdb = PackageDB(tempdb_dir.name)\<close>, then the content of
  every directory at the top of \<^verbatim>\<open>temp_dir\<close> is copied into it.\<close>

fun stage_dirs :: "fs \<Rightarrow> string list \<Rightarrow> fs \<Rightarrow> (error + unit) \<times> fs" where
  "stage_dirs temp_fs [] tfs = (Inr (), tfs)"
| "stage_dirs temp_fs (d_name # rest) tfs =
     (let current_dir = join [] d_name
      in if \<not> isdir temp_fs current_dir then stage_dirs temp_fs rest tfs
         else (case copy_all temp_fs current_dir self_directory tfs of
                 (Inl e, tfs1) \<Rightarrow> (Inl e, tfs1)
               | (Inr u, tfs1) \<Rightarrow> stage_dirs temp_fs rest tfs1))"

definition stage :: "fs \<Rightarrow> (error + unit) \<times> fs" where
  "stage temp_fs =
     (case init (JStr []) (JStr []) empty_dir of
        (Inl e, tfs) \<Rightarrow> (Inl e, tfs)
      | (Inr tempdb, tfs) \<Rightarrow> stage_dirs temp_fs (map basename (listdir [] temp_fs)) tfs)"

text \<open>\<^verbatim>\<open>sync\<close>. \<^verbatim>\<open>check_manifest\<close> returns a pair, and a pair is true in Python whatever
  its components are: the two tests \<^verbatim>\<open>if not ...check_manifest()\<close> never raise; only an
  exception raised inside \<^verbatim>\<open>check_manifest\<close> stops the sync there.\<close>

definition sync ::
  "(json \<Rightarrow> string) \<Rightarrow> (pdb \<Rightarrow> error + json) \<Rightarrow> (string \<Rightarrow> fs option) \<Rightarrow> (fs \<Rightarrow> error + fs)
   \<Rightarrow> pdb \<Rightarrow> json \<Rightarrow> fs \<Rightarrow> (error + unit) \<times> pdb \<times> fs" where
  "sync H real_db_uri download unpack self duri fs =
     (case clean (if py_bool duri then self\<lparr>db_uri := duri\<rparr> else self) fs of
        (Inl e, self1, fs1) \<Rightarrow> (Inl e, self1, fs1)
      | (Inr u, self1, fs1) \<Rightarrow>
     (case real_db_uri self1 of
        Inl e \<Rightarrow> (Inl e, self1, fs1)
      | Inr uri \<Rightarrow>
     (case py_str uri of
        Inl e \<Rightarrow> (Inl e, self1, fs1)
      | Inr uri_s \<Rightarrow>
     (case download uri_s of
        None \<Rightarrow> (Inl (Exception (''sync failed: '' @ uri_s)), self1, fs1)
      | Some download_fs \<Rightarrow>
     (case unpack download_fs of
        Inl e \<Rightarrow> (Inl e, self1, fs1)
      | Inr temp_fs \<Rightarrow>
     (case stage temp_fs of
        (Inl e, tfs) \<Rightarrow> (Inl e, self1, fs1)
      | (Inr u, tfs) \<Rightarrow>
     (case check_manifest H tfs of
        (Inl e, tfs1) \<Rightarrow> (Inl e, self1, fs1)
      | (Inr staged_ok, tfs1) \<Rightarrow>
     (case clean self1 fs1 of
        (Inl e, self2, fs2) \<Rightarrow> (Inl e, self2, fs2)
      | (Inr u, self2, fs2) \<Rightarrow>
     (case copy_all tfs1 [] self_directory fs2 of
        (Inl e, fs3) \<Rightarrow> (Inl e, self2, fs3)
      | (Inr u, fs3) \<Rightarrow>
     (case check_manifest H fs3 of
        (Inl e, fs4) \<Rightarrow> (Inl e, self2, fs4)
      | (Inr copied_ok, fs4) \<Rightarrow> read H self2 fs4))))))))))"

subsection \<open>Notions used in the statements\<close>

text \<open>The keys of a manifest whose file hashes to something else than the recorded
  value, in the order of the manifest.\<close>

definition mismatches :: "(json \<Rightarrow> string) \<Rightarrow> fs \<Rightarrow> (string \<times> json) list \<Rightarrow> string list" where
  "mismatches H fs kvs =
     map fst (filter (\<lambda>kv. case hash_file H (fst kv) fs of
                              Inl e \<Rightarrow> False | Inr h \<Rightarrow> JStr h \<noteq> snd kv) kvs)"



subsection \<open>Example trees\<close>

text \<open>A database whose tree has just been reset, and the tree of the scenario
  \<^verbatim>\<open>add_category("app-test")\<close>, \<^verbatim>\<open>add_package(Package("app-test", "metadata_tester",
  "0.1"), {"description": "testing ebuild"})\<close>; \<open>fresh_fs\<close> is the directory of a database
  right after \<^verbatim>\<open>PackageDB(directory)\<close> on an empty directory.\<close>

definition fresh_fs :: fs where
  "fresh_fs =
     [([], Dir), (''uri.json'', File (JObj [(''db_uri'', JStr []), (''repo_uri'', JStr [])]))]"

text \<open>The directory of a new database after the scenario and \<^verbatim>\<open>write()\<close>.\<close>

definition app_test_fs :: fs where
  "app_test_fs =
     [([], Dir),
      (''uri.json'', File (JObj [(''db_uri'', JStr []), (''repo_uri'', JStr [])])),
      (''info.json'', File (JObj [])),
      (''categories.json'', File (JObj [(''app-test'', JObj [])])),
      (''app-test'', Dir),
      (''app-test/metadata_tester'', Dir),
      (''app-test/metadata_tester/0.1.json'',
       File (JObj [(''description'', JStr ''testing ebuild'')])),
      (''app-test/metadata_tester/versions.json'', File (JArr [JStr ''0.1''])),
      (''app-test/packages.json'', File (JArr [JStr ''metadata_tester'']))]"



text \<open>The body \<^verbatim>\<open>return self.db_uri\<close> of \<^verbatim>\<open>get_real_db_uri\<close>, as a subclass that declares
  the method with its \<^verbatim>\<open>self\<close> parameter runs it.\<close>

definition return_db_uri :: "pdb \<Rightarrow> error + json" where
  "return_db_uri self = Inr (db_uri self)"

definition new_db :: pdb where
  "new_db = \<lparr>repo_uri = JStr [], db_uri = JStr [], info = JObj [], categories = JObj [],
     packages = []\<rparr>"

definition app_test_db :: pdb where
  "app_test_db = new_db\<lparr>categories := JObj [(''app-test'', JObj [])],
     packages := [(''app-test'', [(''metadata_tester'',
        [(''0.1'', JObj [(''description'', JStr ''testing ebuild'')])])])]\<rparr>"

section \<open>Properties\<close>

subsection \<open>The in-memory tree\<close>

lemma map_of_Some_key: "map_of xs k = Some v \<Longrightarrow> k \<in> fst ` set xs"
  using map_of_eq_None_iff [of xs k] by simp

lemma add_package_None:
  "map_of (packages self) c = None \<Longrightarrow>
   add_package self (Package c n v) d = Inl (Exception (''Non-existent category: '' @ c))"
  by (simp add: add_package_def)

lemma add_package_Some:
  "add_package self (Package c n v) d =
     Inr (self\<lparr>packages := AList.update c
            (AList.update n
               (AList.update v d (case map_of ns n of None \<Rightarrow> [] | Some vs \<Rightarrow> vs)) ns)
            (packages self)\<rparr>)"
  if "map_of (packages self) c = Some ns"
proof (cases "map_of ns n")
  case None
  then have "n \<notin> fst ` set ns" by (simp add: map_of_eq_None_iff)
  then show ?thesis using that None by (simp add: add_package_def Let_def update_conv')
next
  case (Some vs)
  then have "n \<in> fst ` set ns" using map_of_eq_None_iff [of ns n] by simp
  then show ?thesis using that Some by (simp add: add_package_def Let_def)
qed

lemma record_at_alt:
  "record_at self (Package c n v) =
     (case map_of (packages self) c of None \<Rightarrow> None
      | Some ns \<Rightarrow> (case map_of ns n of None \<Rightarrow> None | Some vs \<Rightarrow> map_of vs v))"
  by (simp add: record_at_def get_package_description_def split: option.splits)

lemma app_test_db_built:
  "(case add_category new_db ''app-test'' (JObj []) of Inr s \<Rightarrow>
      add_package s (Package ''app-test'' ''metadata_tester'' ''0.1'')
        (JObj [(''description'', JStr ''testing ebuild'')])) = Inr app_test_db"
  by (simp add: add_category_def add_package_def new_db_def app_test_db_def Let_def)

text \<open>
  Claim C7. \<^verbatim>\<open>add_package\<close> on a category that is not a key of \<^verbatim>\<open>db['packages']\<close>
  (no \<^verbatim>\<open>add_category\<close> registered it) raises \<^verbatim>\<open>Exception('Non-existent category: ...')\<close>
  and returns no new tree; on a registered category it succeeds and the record is then
  stored at the triple, whether or not the name, the version or the triple existed before.
\<close>

theorem add_package_spec:
  "(pkg_category p \<notin> set (map fst (packages self)) \<longrightarrow>
      add_package self p d = Inl (Exception (''Non-existent category: '' @ pkg_category p)))
   \<and> (pkg_category p \<in> set (map fst (packages self)) \<longrightarrow>
      (\<exists>self'. add_package self p d = Inr self' \<and> record_at self' p = Some d))"
proof (cases p)
  case (Package c n v)
  show ?thesis
  proof (cases "map_of (packages self) c")
    case None
    then show ?thesis using Package
      by (simp add: add_package_None map_of_eq_None_iff)
  next
    case (Some ns)
    then show ?thesis using Package
      by (simp add: add_package_Some record_at_alt update_conv' map_of_Some_key)
  qed
qed

theorem add_package_spec_witness:
  "add_package new_db (Package ''missing'' ''p'' ''1'') (JObj [])
     = Inl (Exception ''Non-existent category: missing'')
   \<and> (\<exists>self'. add_package app_test_db (Package ''app-test'' ''p'' ''1'') (JObj []) = Inr self'
        \<and> record_at self' (Package ''app-test'' ''p'' ''1'') = Some (JObj []))"
  using add_package_spec [of "Package ''missing'' ''p'' ''1''" new_db "JObj []"]
    add_package_spec [of "Package ''app-test'' ''p'' ''1''" app_test_db "JObj []"]
  by (simp add: new_db_def app_test_db_def)

text \<open>
  Claim C10. A successful \<^verbatim>\<open>add_package(Package(c, n, v), record)\<close> leaves the info
  record, the categories with their descriptions, the URIs and the keys of
  \<^verbatim>\<open>db['packages']\<close> as they were, and the record at every other triple is unchanged.
\<close>

theorem add_package_frame:
  assumes "add_package self p d = Inr self'"
  shows "info self' = info self \<and> categories self' = categories self
     \<and> repo_uri self' = repo_uri self \<and> db_uri self' = db_uri self
     \<and> map fst (packages self') = map fst (packages self)
     \<and> (\<forall>q. q \<noteq> p \<longrightarrow> record_at self' q = record_at self q)"
proof (cases p)
  case (Package c n v)
  show ?thesis
  proof (cases "map_of (packages self) c")
    case None
    then show ?thesis using assms Package by (simp add: add_package_None)
  next
    case (Some ns)
    have in_keys: "c \<in> set (map fst (packages self))"
      using Some by (simp add: map_of_Some_key)
    have s': "self' = self\<lparr>packages := AList.update c
            (AList.update n
               (AList.update v d (case map_of ns n of None \<Rightarrow> [] | Some vs \<Rightarrow> vs)) ns)
            (packages self)\<rparr>"
      using assms Package Some by (simp add: add_package_Some)
    have frame: "record_at self' q = record_at self q" if "q \<noteq> p" for q
    proof (cases q)
      case q: (Package c' n' v')
      show ?thesis using that Some
        unfolding q Package s' record_at_alt
        by (cases "map_of ns n") (auto simp: update_conv' split: option.splits)
    qed
    show ?thesis using frame in_keys by (simp add: s' update_keys)
  qed
qed

theorem add_package_frame_witness:
  "\<exists>self'. add_package app_test_db (Package ''app-test'' ''p'' ''1'') (JObj []) = Inr self'
     \<and> categories self' = JObj [(''app-test'', JObj [])]
     \<and> record_at self' (Package ''app-test'' ''metadata_tester'' ''0.1'')
         = Some (JObj [(''description'', JStr ''testing ebuild'')])"
proof -
  obtain self' where s: "add_package app_test_db (Package ''app-test'' ''p'' ''1'') (JObj []) = Inr self'"
    by (simp add: add_package_def app_test_db_def new_db_def Let_def)
  from add_package_frame [OF s]
  have "categories self' = categories app_test_db"
    and "record_at self' (Package ''app-test'' ''metadata_tester'' ''0.1'')
         = record_at app_test_db (Package ''app-test'' ''metadata_tester'' ''0.1'')"
    by simp_all
  then show ?thesis using s
    by (simp add: app_test_db_def new_db_def record_at_alt)
qed

lemma list_all_packages_iff:
  "Package c n v \<in> set (list_all_packages self) \<longleftrightarrow>
     (\<exists>ns vs d. (c, ns) \<in> set (packages self) \<and> (n, vs) \<in> set ns \<and> (v, d) \<in> set vs)"
proof
  assume "Package c n v \<in> set (list_all_packages self)"
  then obtain x y z where "x \<in> set (packages self)" "y \<in> set (snd x)" "z \<in> set (snd y)"
    "c = fst x" "n = fst y" "v = fst z"
    unfolding list_all_packages_def by (clarsimp simp: split_def)
  then have "(c, snd x) \<in> set (packages self)" "(n, snd y) \<in> set (snd x)" "(v, snd z) \<in> set (snd y)"
    by simp_all
  then show "\<exists>ns vs d. (c, ns) \<in> set (packages self) \<and> (n, vs) \<in> set ns \<and> (v, d) \<in> set vs"
    by blast
next
  assume "\<exists>ns vs d. (c, ns) \<in> set (packages self) \<and> (n, vs) \<in> set ns \<and> (v, d) \<in> set vs"
  then obtain ns vs d where "(c, ns) \<in> set (packages self)" "(n, vs) \<in> set ns" "(v, d) \<in> set vs"
    by blast
  then show "Package c n v \<in> set (list_all_packages self)"
    unfolding list_all_packages_def
    apply (simp add: split_def)
    apply (rule bexI [of _ "(c, ns)"])
     apply (rule bexI [of _ "(n, vs)"])
      apply (rule image_eqI [of _ _ "(v, d)"])
       apply simp_all
    done
qed

text \<open>
  Claim C8. The four listing methods are functions of the tree alone (they return a fresh
  list and assign nothing). \<^verbatim>\<open>list_package_names\<close> and \<^verbatim>\<open>list_package_versions\<close> raise
  \<^verbatim>\<open>Exception('No such category: ...')\<close> on an unknown category, \<^verbatim>\<open>list_package_versions\<close>
  raises \<^verbatim>\<open>Exception('No such package: ...')\<close> on an unknown name of a known category, and
  otherwise they return the keys; \<^verbatim>\<open>list_all_packages\<close> takes no category or name and
  returns exactly the triples present in the tree.
\<close>

theorem list_lookups:
  "(category \<notin> set (map fst (packages self)) \<longrightarrow>
      list_package_names self category = Inl (Exception (''No such category: '' @ category))
    \<and> list_package_versions self category name
        = Inl (Exception (''No such category: '' @ category)))
   \<and> (\<forall>ns. map_of (packages self) category = Some ns \<longrightarrow>
        list_package_names self category = Inr (map fst ns)
      \<and> (name \<notin> set (map fst ns) \<longrightarrow>
           list_package_versions self category name
             = Inl (Exception (''No such package: '' @ name)))
      \<and> (\<forall>vs. map_of ns name = Some vs \<longrightarrow>
           list_package_versions self category name = Inr (map fst vs)))
   \<and> list_categories self = py_iter (categories self)
   \<and> (Package c n v \<in> set (list_all_packages self) \<longleftrightarrow>
        (\<exists>ns vs d. (c, ns) \<in> set (packages self) \<and> (n, vs) \<in> set ns \<and> (v, d) \<in> set vs))"
proof (cases "map_of (packages self) category")
  case None
  then have "category \<notin> set (map fst (packages self))"
    by (simp add: map_of_eq_None_iff)
  then show ?thesis using None list_all_packages_iff [of c n v self]
    by (simp add: list_package_names_def list_package_versions_def list_categories_def)
next
  case (Some ns)
  then have "category \<in> set (map fst (packages self))"
    by (simp add: map_of_Some_key)
  then show ?thesis using Some list_all_packages_iff [of c n v self]
    by (simp add: list_package_names_def list_package_versions_def list_categories_def
        map_of_eq_None_iff [symmetric])
qed

theorem list_lookups_witness:
  "list_package_names app_test_db ''missing'' = Inl (Exception ''No such category: missing'')
   \<and> list_package_versions app_test_db ''missing'' ''p''
       = Inl (Exception ''No such category: missing'')
   \<and> list_package_names app_test_db ''app-test'' = Inr [''metadata_tester'']
   \<and> list_package_versions app_test_db ''app-test'' ''p''
       = Inl (Exception ''No such package: p'')
   \<and> list_package_versions app_test_db ''app-test'' ''metadata_tester'' = Inr [''0.1'']"
  using list_lookups [of "''missing''" app_test_db "''p''"]
    list_lookups [of "''app-test''" app_test_db "''p''"]
    list_lookups [of "''app-test''" app_test_db "''metadata_tester''"]
  by (simp add: app_test_db_def new_db_def)

lemma update_key_names:
  "k \<in> fst ` set al \<Longrightarrow>
   map (\<lambda>kv. f (fst kv)) (AList.update k v al) = map (\<lambda>kv. f (fst kv)) al"
  by (induct al) auto

text \<open>
  Claim C9. \<^verbatim>\<open>add_category\<close> on a category that is already registered stores the new
  description under it (the category keeps its place among the keys) and resets its
  package mapping to the empty dict, so no record remains under the category.
\<close>

theorem add_category_again:
  assumes "py_getitem (categories self) category = Inr old"
  shows "\<exists>self'. add_category self category description = Inr self'
     \<and> py_getitem (categories self') category = Inr description
     \<and> py_iter (categories self') = py_iter (categories self)
     \<and> map_of (packages self') category = Some []
     \<and> list_package_names self' category = Inr []
     \<and> (\<forall>n v. record_at self' (Package category n v) = None)"
proof (cases "categories self")
  case (JObj kvs)
  from assms JObj have "map_of kvs category = Some old"
    by (simp split: option.splits)
  then have "category \<in> fst ` set kvs"
    by (rule map_of_Some_key)
  then show ?thesis using JObj
    by (simp add: add_category_def update_conv' update_key_names list_package_names_def
        record_at_alt)
qed (insert assms, simp_all)

theorem add_category_again_witness:
  "\<exists>self'. add_category app_test_db ''app-test'' (JObj [(''d'', JInt 1)]) = Inr self'
     \<and> py_getitem (categories self') ''app-test'' = Inr (JObj [(''d'', JInt 1)])
     \<and> list_package_names self' ''app-test'' = Inr []
     \<and> record_at self' (Package ''app-test'' ''metadata_tester'' ''0.1'') = None"
proof -
  have "py_getitem (categories app_test_db) ''app-test'' = Inr (JObj [])"
    by (simp add: app_test_db_def new_db_def)
  from add_category_again [OF this, of "JObj [(''d'', JInt 1)]"] show ?thesis by blast
qed

subsection \<open>Paths and files\<close>

lemma join_root [simp]: "join [] b = b"
  by (simp add: join_def)

lemma fresh_fs_init: "init (JStr []) (JStr []) empty_dir = (Inr new_db, fresh_fs)"
  by code_simp

lemma isdir_exists: "isdir fs p \<Longrightarrow> path_exists fs p"
  by (simp add: isdir_def path_exists_def)

lemma not_exists_not_isdir: "\<not> path_exists fs p \<Longrightarrow> \<not> isdir fs p"
  by (simp add: isdir_def path_exists_def)

lemma not_exists_not_isfile: "\<not> path_exists fs p \<Longrightarrow> \<not> isfile fs p"
  by (simp add: isfile_def path_exists_def)

lemma isfile_read: "isfile fs p \<longleftrightarrow> (\<exists>c. read_file p fs = Inr c)"
  by (auto simp: isfile_def read_file_def split: option.splits node.splits)

lemma read_file_Inr: "read_file p fs = Inr c \<longleftrightarrow> map_of fs p = Some (File c)"
  by (auto simp: read_file_def split: option.splits node.splits)

lemma read_file_exists: "read_file p fs = Inr c \<Longrightarrow> path_exists fs p"
  by (simp add: read_file_Inr path_exists_def)


lemma dirname_plain: "CHR ''/'' \<notin> set n \<Longrightarrow> dirname n = []"
proof -
  assume "CHR ''/'' \<notin> set n"
  then have e: "dropWhile (\<lambda>c. c \<noteq> CHR ''/'') (rev n) = []"
    by auto
  show ?thesis unfolding dirname_def e by simp
qed




subsection \<open>Creating directories\<close>

declare makedirs.simps [simp del]

lemma mkdir_cases:
  assumes "mkdir p fs = (r, fs')"
  shows "(r = Inl OSError \<and> fs' = fs) \<or>
         (r = Inr () \<and> fs' = AList.update p Dir fs \<and> \<not> path_exists fs p)"
  using assms by (auto simp: mkdir_def split: if_splits)

lemma mkdir_frame:
  assumes "mkdir p fs = (r, fs')"
  shows "map_of fs' q = map_of fs q \<or> (q = p \<and> map_of fs q = None \<and> map_of fs' q = Some Dir)"
proof (cases "q = p")
  case True
  then show ?thesis using mkdir_cases [OF assms] by (auto simp: update_conv' path_exists_def)
next
  case False
  then show ?thesis using mkdir_cases [OF assms] by (auto simp: update_conv')
qed

lemma makedirs_frame:
  "makedirs p fs = (r, fs') \<Longrightarrow>
   map_of fs' q = map_of fs q \<or>
   (map_of fs q = None \<and> map_of fs' q = Some Dir \<and> length q \<le> length p)"
proof (induction p fs arbitrary: r fs' rule: makedirs.induct)
  case (1 p fs)
  show ?case
  proof (cases "length (dirname p) < length p \<and> \<not> path_exists fs (dirname p)")
    case False
    then have "makedirs p fs = mkdir p fs"
      by (subst makedirs.simps) auto
    then have "mkdir p fs = (r, fs')"
      using "1.prems" by simp
    from mkdir_frame [OF this, of q] show ?thesis by auto
  next
    case True
    obtain r1 fs1 where m1: "makedirs (dirname p) fs = (r1, fs1)"
      by (cases "makedirs (dirname p) fs") auto
    from "1.IH" [OF True m1]
    have ih: "map_of fs1 q = map_of fs q \<or>
       (map_of fs q = None \<and> map_of fs1 q = Some Dir \<and> length q \<le> length (dirname p))" .
    show ?thesis
    proof (cases r1)
      case (Inl e)
      have "makedirs p fs = (Inl e, fs1)"
        using True m1 Inl by (subst makedirs.simps) simp
      then have "fs' = fs1"
        using "1.prems" by simp
      then show ?thesis using ih True by auto
    next
      case (Inr u)
      have "makedirs p fs = mkdir p fs1"
        using True m1 Inr by (subst makedirs.simps) simp
      then have "mkdir p fs1 = (r, fs')"
        using "1.prems" by simp
      from mkdir_frame [OF this, of q] show ?thesis using ih True by auto
    qed
  qed
qed


subsection \<open>\<^verbatim>\<open>FileJSON\<close>\<close>

lemma write_file_ok:
  "\<not> isdir fs p \<Longrightarrow> isdir fs (dirname p) \<Longrightarrow>
   write_file p c fs = (Inr (), AList.update p (File c) fs)"
  by (simp add: write_file_def)






lemma write_absent:
  assumes "\<not> path_exists fs1 p" "isdir fs1 (dirname p)"
  shows "write_file p c fs1 = (Inr (), AList.update p (File c) fs1)"
  using assms by (simp add: not_exists_not_isdir write_file_ok)

lemma filejson_read_new:
  assumes "\<not> path_exists fs (join d n)" "isdir fs d" "dirname (join d n) = d"
  shows "filejson_read d n ms fs =
     (Inr (default_content ms), AList.update (join d n) (File (json_dump (default_content ms))) fs)"
  unfolding filejson_read_def Let_def
  using assms by (simp add: isdir_exists not_exists_not_isfile write_absent)


lemma filejson_read_existing:
  assumes "read_file (join d n) fs = Inr c" "path_exists fs d"
  shows "filejson_read d n ms fs =
     (case check_mandatories ms c of Inl e \<Rightarrow> (Inl e, fs) | Inr u \<Rightarrow> (Inr c, fs))"
proof -
  have "isfile fs (join d n)" using assms(1) isfile_read by blast
  then show ?thesis using assms
    unfolding filejson_read_def Let_def by simp
qed



subsection \<open>The manifest check\<close>

lemma hash_file_isfile: "isfile fs p \<Longrightarrow> \<exists>h. hash_file H p fs = Inr h"
  by (auto simp: hash_file_def isfile_read)

lemma hash_file_not_file: "\<not> isfile fs p \<Longrightarrow> hash_file H p fs = Inl OSError"
  by (auto simp: hash_file_def isfile_def read_file_def split: option.splits node.splits)

lemma check_items_files:
  "\<forall>kv \<in> set kvs. isfile fs (fst kv) \<Longrightarrow> check_items H kvs fs = Inr (mismatches H fs kvs)"
proof (induction kvs)
  case Nil
  then show ?case by (simp add: mismatches_def)
next
  case (Cons kv kvs)
  then obtain h where h: "hash_file H (fst kv) fs = Inr h"
    using hash_file_isfile [of fs "fst kv" H] by auto
  have "check_items H kvs fs = Inr (mismatches H fs kvs)"
    using Cons by simp
  then show ?case using h by (simp add: mismatches_def self_directory_def)
qed

lemma check_items_not_file:
  "\<exists>kv \<in> set kvs. \<not> isfile fs (fst kv) \<Longrightarrow> check_items H kvs fs = Inl OSError"
proof (induction kvs)
  case Nil
  then show ?case by simp
next
  case (Cons kv kvs)
  show ?case
  proof (cases "isfile fs (fst kv)")
    case False
    then show ?thesis by (simp add: hash_file_not_file self_directory_def)
  next
    case True
    then obtain h where h: "hash_file H (fst kv) fs = Inr h"
      using hash_file_isfile [of fs "fst kv" H] by auto
    have "check_items H kvs fs = Inl OSError"
      using Cons True by auto
    then show ?thesis using h by (simp add: self_directory_def)
  qed
qed

lemma dirname_manifest: "dirname ''manifest.json'' = []"
  by (rule dirname_plain) simp

lemma check_manifest_absent:
  assumes "isdir fs []" "\<not> path_exists fs ''manifest.json''"
  shows "check_manifest H fs =
     (Inl (Exception ''Bad manifest: no info.json entry''),
      AList.update ''manifest.json'' (File (JObj [])) fs)"
proof -
  have "filejson_read [] ''manifest.json'' [] fs =
      (Inr (default_content []), AList.update (join [] ''manifest.json'')
         (File (json_dump (default_content []))) fs)"
    by (rule filejson_read_new) (use assms in \<open>simp_all add: dirname_manifest\<close>)
  then show ?thesis
    by (simp add: check_manifest_def self_directory_def default_content_def INFO_NAME_def)
qed

lemma check_manifest_object:
  assumes "isdir fs []" "read_file ''manifest.json'' fs = Inr (JObj kvs)"
  shows "check_manifest H fs =
     ((if ''info.json'' \<notin> fst ` set kvs then Inl (Exception ''Bad manifest: no info.json entry'')
       else if ''categories.json'' \<notin> fst ` set kvs
         then Inl (Exception ''Bad manifest: no categories.json entry'')
       else if ''uri.json'' \<notin> fst ` set kvs then Inl (Exception ''Bad manifest: no uri.json entry'')
       else if \<exists>kv \<in> set kvs. \<not> isfile fs (fst kv) then Inl OSError
       else Inr (mismatches H fs kvs = [], mismatches H fs kvs)), fs)"
proof -
  have r: "filejson_read [] ''manifest.json'' [] fs = (Inr (JObj kvs), fs)"
    using filejson_read_existing [of "[]" "''manifest.json''" fs "JObj kvs" "[]"] assms
    by (simp add: isdir_exists)
  show ?thesis
  proof (cases "\<forall>kv \<in> set kvs. isfile fs (fst kv)")
    case True
    then show ?thesis using r check_items_files [OF True, of H]
      by (simp add: check_manifest_def self_directory_def INFO_NAME_def CATEGORIES_NAME_def
          URI_NAME_def)
  next
    case False
    then have "check_items H kvs fs = Inl OSError"
      by (intro check_items_not_file) simp
    then show ?thesis using r False
      by (simp add: check_manifest_def self_directory_def INFO_NAME_def CATEGORIES_NAME_def
          URI_NAME_def)
  qed
qed

text \<open>
  Claim C5, as the code has it. There is one exception class and no error of its own for
  an absent manifest: \<^verbatim>\<open>FileJSON.read\<close> creates the absent file as an empty object, and the
  check then raises \<^verbatim>\<open>Exception('Bad manifest: no info.json entry')\<close>, as it does for a
  manifest that exists and lacks that entry. A manifest object that lacks one of the three
  fixed entries raises the \<^verbatim>\<open>Bad manifest\<close> exception naming the first one missing. With
  the three entries present, the check returns the listed paths whose recomputed hash
  differs from the recorded value (with the flag telling whether there is none) when every
  listed path is a file, and raises \<^verbatim>\<open>OSError\<close> when some listed path is not.
\<close>

theorem check_manifest_spec:
  assumes "isdir fs []"
  shows "(\<not> path_exists fs ''manifest.json'' \<longrightarrow>
            check_manifest H fs =
              (Inl (Exception ''Bad manifest: no info.json entry''),
               AList.update ''manifest.json'' (File (JObj [])) fs))
       \<and> (\<forall>kvs. read_file ''manifest.json'' fs = Inr (JObj kvs) \<longrightarrow>
            check_manifest H fs =
              ((if ''info.json'' \<notin> fst ` set kvs
                  then Inl (Exception ''Bad manifest: no info.json entry'')
                else if ''categories.json'' \<notin> fst ` set kvs
                  then Inl (Exception ''Bad manifest: no categories.json entry'')
                else if ''uri.json'' \<notin> fst ` set kvs
                  then Inl (Exception ''Bad manifest: no uri.json entry'')
                else if \<exists>kv \<in> set kvs. \<not> isfile fs (fst kv) then Inl OSError
                else Inr (mismatches H fs kvs = [], mismatches H fs kvs)), fs))"
  using check_manifest_absent [OF assms] check_manifest_object [OF assms] by blast

theorem check_manifest_spec_witness:
  "check_manifest (\<lambda>c. ''d'') fresh_fs =
     (Inl (Exception ''Bad manifest: no info.json entry''),
      fresh_fs @ [(''manifest.json'', File (JObj []))])
   \<and> check_manifest (\<lambda>c. ''d'')
        (fresh_fs @ [(''info.json'', File (JObj [])), (''categories.json'', File (JObj [])),
           (''manifest.json'', File (JObj [(''categories.json'', JStr ''d''),
              (''info.json'', JStr ''x''), (''uri.json'', JStr ''d'')]))]) =
     (Inr (False, [''info.json'']),
      fresh_fs @ [(''info.json'', File (JObj [])), (''categories.json'', File (JObj [])),
           (''manifest.json'', File (JObj [(''categories.json'', JStr ''d''),
              (''info.json'', JStr ''x''), (''uri.json'', JStr ''d'')]))])"
proof -
  let ?H = "\<lambda>c::json. ''d''"
  let ?kvs = "[(''categories.json'', JStr ''d''), (''info.json'', JStr ''x''), (''uri.json'', JStr ''d'')]"
  let ?fs = "fresh_fs @ [(''info.json'', File (JObj [])), (''categories.json'', File (JObj [])),
           (''manifest.json'', File (JObj ?kvs))]"
  have d1: "isdir fresh_fs []" by code_simp
  have a1: "\<not> path_exists fresh_fs ''manifest.json''" by code_simp
  have u1: "AList.update ''manifest.json'' (File (JObj [])) fresh_fs
      = fresh_fs @ [(''manifest.json'', File (JObj []))]" by code_simp
  have d2: "isdir ?fs []" by code_simp
  have r2: "read_file ''manifest.json'' ?fs = Inr (JObj ?kvs)" by code_simp
  have f2: "\<not> (\<exists>kv \<in> set ?kvs. \<not> isfile ?fs (fst kv))" by code_simp
  have m2: "mismatches ?H ?fs ?kvs = [''info.json'']" by code_simp
  have k2: "''info.json'' \<in> fst ` set ?kvs" "''categories.json'' \<in> fst ` set ?kvs"
    "''uri.json'' \<in> fst ` set ?kvs" by simp_all
  from check_manifest_spec [OF d1, of ?H] a1 u1
  have 1: "check_manifest ?H fresh_fs =
     (Inl (Exception ''Bad manifest: no info.json entry''),
      fresh_fs @ [(''manifest.json'', File (JObj []))])" by simp
  from check_manifest_spec [OF d2, of ?H] r2
  have "check_manifest ?H ?fs =
              ((if ''info.json'' \<notin> fst ` set ?kvs
                  then Inl (Exception ''Bad manifest: no info.json entry'')
                else if ''categories.json'' \<notin> fst ` set ?kvs
                  then Inl (Exception ''Bad manifest: no categories.json entry'')
                else if ''uri.json'' \<notin> fst ` set ?kvs
                  then Inl (Exception ''Bad manifest: no uri.json entry'')
                else if \<exists>kv \<in> set ?kvs. \<not> isfile ?fs (fst kv) then Inl OSError
                else Inr (mismatches ?H ?fs ?kvs = [], mismatches ?H ?fs ?kvs)), ?fs)" by blast
  then have 2: "check_manifest ?H ?fs = (Inr (False, [''info.json'']), ?fs)"
    using f2 m2 k2 by simp
  show ?thesis using 1 2 by simp
qed

text \<open>The claim as it is worded fails on two counts. The check of a directory without a
  manifest ends exactly as the check of a directory whose manifest is the empty object, and
  it has written that empty manifest. And a manifest with the three fixed entries does not
  always give a list: here \<^verbatim>\<open>info.json\<close> is listed and absent, and the check raises.\<close>

theorem check_manifest_counterexample:
  "fst (check_manifest (\<lambda>c. ''d'') fresh_fs)
     = fst (check_manifest (\<lambda>c. ''d'') (fresh_fs @ [(''manifest.json'', File (JObj []))]))
   \<and> read_file ''manifest.json'' (snd (check_manifest (\<lambda>c. ''d'') fresh_fs)) = Inr (JObj [])
   \<and> check_manifest (\<lambda>c. ''d'')
        (fresh_fs @ [(''categories.json'', File (JObj [])),
           (''manifest.json'', File (JObj [(''categories.json'', JStr ''d''),
              (''info.json'', JStr ''d''), (''uri.json'', JStr ''d'')]))]) =
     (Inl OSError,
      fresh_fs @ [(''categories.json'', File (JObj [])),
           (''manifest.json'', File (JObj [(''categories.json'', JStr ''d''),
              (''info.json'', JStr ''d''), (''uri.json'', JStr ''d'')]))])"
  by code_simp

subsection \<open>Writing a tree with an empty category\<close>

text \<open>
  Claim C2 does not hold of the code. \<^verbatim>\<open>add_category\<close> always registers the category in
  \<^verbatim>\<open>db['packages']\<close> (with an empty dict), so the test \<^verbatim>\<open>if not category in
  self.db['packages']\<close> that guards \<^verbatim>\<open>raise Exception('Empty category: ...')\<close> in \<^verbatim>\<open>write\<close>
  is false for it: on a new database, \<^verbatim>\<open>add_category("c")\<close> followed by \<^verbatim>\<open>write()\<close>
  returns normally and leaves a category directory whose \<^verbatim>\<open>packages.json\<close> is the empty
  list.
\<close>

theorem write_db_empty_category:
  "(case add_category new_db ''c'' (JObj []) of
      Inl e \<Rightarrow> (Inl e, fresh_fs)
    | Inr self \<Rightarrow> write_db self fresh_fs) =
   (Inr (),
    [([], Dir),
     (''uri.json'', File (JObj [(''db_uri'', JStr []), (''repo_uri'', JStr [])])),
     (''info.json'', File (JObj [])),
     (''categories.json'', File (JObj [(''c'', JObj [])])),
     (''c'', Dir),
     (''c/packages.json'', File (JArr []))])"
  by code_simp

subsection \<open>\<^verbatim>\<open>clean\<close> and \<^verbatim>\<open>sync\<close>\<close>

lemma rmtree_root:
  "isdir fs [] \<Longrightarrow> rmtree [] fs = (Inr (), [])"
  by (simp add: rmtree_def under_def)

lemma makedirs_root_empty: "makedirs [] [] = (Inr (), [([], Dir)])"
  by code_simp

lemma uri_keys_order: "\<not> (''repo_uri'' :: string) \<le> ''db_uri''"
  by code_simp

lemma json_dump_uri:
  "json_dump (JObj [(''repo_uri'', r), (''db_uri'', d)])
     = JObj [(''db_uri'', json_dump d), (''repo_uri'', json_dump r)]"
  using uri_keys_order by (simp add: sort_key_def)

lemma dirname_uri: "dirname ''uri.json'' = []"
  by (rule dirname_plain) simp

lemma filejson_read_uri_empty:
  "filejson_read [] ''uri.json'' [''repo_uri'', ''db_uri''] [] =
     (Inr (JObj [(''repo_uri'', JStr []), (''db_uri'', JStr [])]), fresh_fs)"
  by code_simp

lemma reset_uri_empty:
  "reset_uri self r d [] =
     (Inr (),
      self\<lparr>repo_uri := (if py_bool r then r else JStr []),
            db_uri := (if py_bool d then d else JStr [])\<rparr>,
      [([], Dir),
       (''uri.json'',
        File (JObj [(''db_uri'', json_dump (if py_bool d then d else JStr [])),
                    (''repo_uri'', json_dump (if py_bool r then r else JStr []))]))])"
proof -
  have w: "write_file ''uri.json'' c fresh_fs = (Inr (), [([], Dir), (''uri.json'', File c)])" for c
    by (simp add: write_file_def fresh_fs_def isdir_def dirname_uri)
  have e: "path_exists fresh_fs []"
    by (simp add: path_exists_def fresh_fs_def)
  show ?thesis
    unfolding reset_uri_def self_directory_def URI_NAME_def filejson_read_uri_empty
    by (simp add: filejson_write_def json_dump_uri w e Let_def del: json_dump.simps)
qed

lemma clean_ok:
  assumes "isdir fs []"
  shows "clean self fs =
     (Inr (),
      reset_db (self\<lparr>repo_uri := (if py_bool (repo_uri self) then repo_uri self else JStr []),
                     db_uri := (if py_bool (db_uri self) then db_uri self else JStr [])\<rparr>),
      [([], Dir),
       (''uri.json'',
        File (JObj [(''db_uri'', json_dump (if py_bool (db_uri self) then db_uri self else JStr [])),
                    (''repo_uri'',
                     json_dump (if py_bool (repo_uri self) then repo_uri self else JStr []))]))])"
  by (simp add: clean_def self_directory_def rmtree_root [OF assms] reset_uri_empty
      del: json_dump.simps)

lemma clean_fails:
  assumes "\<not> isdir fs []"
  shows "clean self fs = (Inl OSError, self, fs)"
  using assms by (simp add: clean_def self_directory_def rmtree_def)

lemma clean_result:
  assumes "clean self fs = (Inr (), self1, fs1)"
  shows "fs1 = [([], Dir),
       (''uri.json'',
        File (JObj [(''db_uri'', json_dump (db_uri self1)),
                    (''repo_uri'', json_dump (repo_uri self1))]))]"
proof (cases "isdir fs []")
  case True
  from clean_ok [OF True, of self] assms show ?thesis
    by (auto simp: reset_db_def)
next
  case False
  from clean_fails [OF False, of self] assms show ?thesis by simp
qed


text \<open>
  Claim C1, as the code has it. \<^verbatim>\<open>sync\<close> begins with \<^verbatim>\<open>self.clean()\<close>, which removes the
  local tree before anything is downloaded. When the check of the staged tree then raises,
  \<^verbatim>\<open>sync\<close> raises that exception and the local directory is the one \<^verbatim>\<open>clean\<close> left: it
  holds \<^verbatim>\<open>uri.json\<close> with the two URIs of the database and nothing else.
\<close>

theorem sync_staged_failure:
  assumes "clean (if py_bool duri then self\<lparr>db_uri := duri\<rparr> else self) fs = (Inr (), self1, fs1)"
    and "real_db_uri self1 = Inr (JStr uri)"
    and "download uri = Some download_fs"
    and "unpack download_fs = Inr temp_fs"
    and "stage temp_fs = (Inr (), tfs)"
    and "check_manifest H tfs = (Inl e, tfs1)"
  shows "sync H real_db_uri download unpack self duri fs = (Inl e, self1, fs1)
     \<and> fs1 = [([], Dir),
              (''uri.json'',
               File (JObj [(''db_uri'', json_dump (db_uri self1)),
                           (''repo_uri'', json_dump (repo_uri self1))]))]"
proof -
  have "sync H real_db_uri download unpack self duri fs = (Inl e, self1, fs1)"
    unfolding sync_def using assms by simp
  then show ?thesis using clean_result [OF assms(1)] by simp
qed

theorem sync_staged_failure_witness:
  "sync (\<lambda>c. []) return_db_uri (\<lambda>u. Some empty_dir) (\<lambda>d. Inr empty_dir) new_db (JStr ''u'')
      app_test_fs =
     (Inl (Exception ''Bad manifest: no info.json entry''), new_db\<lparr>db_uri := JStr ''u''\<rparr>,
      [([], Dir), (''uri.json'', File (JObj [(''db_uri'', JStr ''u''), (''repo_uri'', JStr [])]))])"
proof -
  let ?self1 = "new_db\<lparr>db_uri := JStr ''u''\<rparr>"
  let ?fs1 = "[([], Dir), (''uri.json'', File (JObj [(''db_uri'', JStr ''u''), (''repo_uri'', JStr [])]))]"
  have 1: "clean (if py_bool (JStr ''u'') then new_db\<lparr>db_uri := JStr ''u''\<rparr> else new_db) app_test_fs
      = (Inr (), ?self1, ?fs1)"
    by code_simp
  have 2: "return_db_uri ?self1 = Inr (JStr ''u'')" by code_simp
  have 5: "stage empty_dir = (Inr (), fresh_fs)" by code_simp
  have 6: "check_manifest (\<lambda>c. []) fresh_fs =
      (Inl (Exception ''Bad manifest: no info.json entry''),
       fresh_fs @ [(''manifest.json'', File (JObj []))])"
    by code_simp
  from sync_staged_failure [where real_db_uri = return_db_uri
      and download = "\<lambda>u. Some empty_dir" and unpack = "\<lambda>d. Inr empty_dir"
      and H = "\<lambda>c. []", OF 1 2 refl refl 5 6]
  show ?thesis by simp
qed

text \<open>The claim as it is worded fails: the local tree of the scenario is gone after a sync
  whose staged tree has no manifest.\<close>

theorem sync_staged_failure_counterexample:
  "fst (sync (\<lambda>c. []) return_db_uri (\<lambda>u. Some empty_dir) (\<lambda>d. Inr empty_dir) new_db (JStr [])
          app_test_fs)
     = Inl (Exception ''Bad manifest: no info.json entry'')
   \<and> read_file ''app-test/metadata_tester/0.1.json'' app_test_fs
       = Inr (JObj [(''description'', JStr ''testing ebuild'')])
   \<and> snd (snd (sync (\<lambda>c. []) return_db_uri (\<lambda>u. Some empty_dir) (\<lambda>d. Inr empty_dir) new_db
          (JStr []) app_test_fs))
       = fresh_fs
   \<and> fresh_fs \<noteq> app_test_fs"
  by code_simp

subsection \<open>\<^verbatim>\<open>json.dump\<close> with sorted keys\<close>

lemma insort_key_map_fst:
  assumes "\<And>x. fst (g x) = fst x"
  shows "insort_key fst (g x) (map g ys) = map g (insort_key fst x ys)"
  by (induction ys) (simp_all add: assms)

lemma sort_key_map_fst:
  assumes "\<And>x. fst (g x) = fst x"
  shows "sort_key fst (map g xs) = map g (sort_key fst xs)"
  by (induction xs) (simp_all add: insort_key_map_fst [OF assms])

lemma sort_key_idem: "sort_key f (sort_key f xs) = sort_key f xs"
  by (rule sort_key_id_if_sorted) simp

lemma json_dump_idem: "json_dump (json_dump j) = json_dump j"
proof (induction j)
  case (JArr xs)
  then show ?case by simp
next
  case (JObj kvs)
  have ih: "json_dump (json_dump v) = json_dump v" if "(k, v) \<in> set kvs" for k v
    using JObj.IH [of "(k, v)" v] that by simp
  have m: "map (map_prod id json_dump) (map (map_prod id json_dump) kvs)
      = map (map_prod id json_dump) kvs"
    using ih by auto
  have "json_dump (json_dump (JObj kvs))
      = JObj (sort_key fst (map (map_prod id json_dump)
           (sort_key fst (map (map_prod id json_dump) kvs))))"
    by simp
  also have "\<dots> = JObj (sort_key fst (sort_key fst
       (map (map_prod id json_dump) (map (map_prod id json_dump) kvs))))"
    by (subst sort_key_map_fst [of "map_prod id json_dump", symmetric]) simp_all
  also have "\<dots> = json_dump (JObj kvs)"
    unfolding m sort_key_idem by simp
  finally show ?case .
qed simp_all

lemma py_eq_json_dump: "py_eq (json_dump j) j"
  by (simp add: py_eq_def json_dump_idem)

lemma json_dump_JStr_iff: "json_dump x = JStr s \<longleftrightarrow> x = JStr s"
  by (cases x) auto



subsection \<open>What writing a file changes\<close>

lemma write_file_result:
  assumes "write_file p c fs = (Inr u, fs')"
  shows "fs' = AList.update p (File c) fs" "\<not> isdir fs p" "isdir fs (dirname p)"
  using assms by (auto simp: write_file_def split: if_splits)

lemma write_file_fail:
  assumes "write_file p c fs = (Inl e, fs')"
  shows "fs' = fs"
  using assms by (auto simp: write_file_def split: if_splits)



lemma path_exists_update:
  "path_exists (AList.update p n fs) q = (q = p \<or> path_exists fs q)"
  by (auto simp: path_exists_def update_conv')



lemma makedirs_exists_mono:
  assumes "makedirs d fs = (r, fs')" "path_exists fs q"
  shows "path_exists fs' q"
  using makedirs_frame [OF assms(1), of q] assms(2) by (auto simp: path_exists_def)



lemma prepare_exists_mono:
  assumes "(if \<not> path_exists fs d then makedirs d fs else (Inr (), fs)) = (r, fs')"
    "path_exists fs q"
  shows "path_exists fs' q"
  using assms makedirs_exists_mono by (auto split: if_splits)

lemma filejson_write_cases:
  assumes "filejson_write d n [] c fs = (r, fs')"
  obtains (prep) e where "r = Inl e"
      "(if \<not> path_exists fs d then makedirs d fs else (Inr (), fs)) = (Inl e, fs')"
    | (wr) fs1 where
      "(if \<not> path_exists fs d then makedirs d fs else (Inr (), fs)) = (Inr (), fs1)"
      "write_file (join d n) (json_dump c) fs1 = (r, fs')"
proof -
  obtain r1 fs1 where p: "(if \<not> path_exists fs d then makedirs d fs else (Inr (), fs)) = (r1, fs1)"
    by (cases "if \<not> path_exists fs d then makedirs d fs else (Inr (), fs)") auto
  show ?thesis
  proof (cases r1)
    case (Inl e)
    then have "r = Inl e" "fs' = fs1"
      using assms p unfolding filejson_write_def by (simp_all split: if_splits)
    then show ?thesis using prep p Inl by simp
  next
    case (Inr u)
    then have "write_file (join d n) (json_dump c) fs1 = (r, fs')"
      using assms p unfolding filejson_write_def by (simp split: if_splits)
    then show ?thesis using wr p Inr by simp
  qed
qed



lemma filejson_write_exists_mono:
  assumes "filejson_write d n [] c fs = (r, fs')" "path_exists fs q"
  shows "path_exists fs' q"
  using assms(1)
proof (cases rule: filejson_write_cases)
  case (prep e)
  then show ?thesis using prepare_exists_mono assms(2) by blast
next
  case (wr fs1)
  have 1: "path_exists fs1 q" using wr(1) assms(2) by (rule prepare_exists_mono)
  show ?thesis
  proof (cases r)
    case (Inl e)
    then show ?thesis using wr(2) write_file_fail 1 by metis
  next
    case (Inr u)
    then show ?thesis using write_file_result(1) [of "join d n" "json_dump c" fs1 u fs'] wr(2) 1
      by (simp add: path_exists_update)
  qed
qed


subsection \<open>What \<^verbatim>\<open>write\<close> changes\<close>






subsection \<open>Files at the top of the database directory\<close>







subsection \<open>The manifest that \<^verbatim>\<open>manifest\<close> writes\<close>










subsection \<open>Checking a directory against its manifest\<close>









end
